theory Spec2Isabelle
  imports Complex_Main "HOL-Library.Char_ord" "HOL-Library.List_Lexorder"
begin

section \<open>Python values used by the prediction engine\<close>

text \<open>
  The module \<^verbatim>\<open>src/ml/prediction_engine.py\<close> computes with Python floats, strings, lists
  and dicts. In this development a finite float is a \<^typ>\<open>real\<close> (so the arithmetic is exact
  and neither overflow nor binary representation error is modelled), a string is a
  \<^typ>\<open>string\<close>, and a dict literal is an association list in the order it is written.
  Exceptions are values: a function that can raise returns \<open>py_exception + 'a\<close>.
\<close>

datatype py_exception = ValueError string | KeyError string

fun exception_class :: "py_exception \<Rightarrow> string" where
  "exception_class (ValueError msg) = ''ValueError''"
| "exception_class (KeyError k) = ''KeyError''"

definition bind_exc :: "'e + 'a \<Rightarrow> ('a \<Rightarrow> 'e + 'b) \<Rightarrow> 'e + 'b" where
  "bind_exc r f = (case r of Inl e \<Rightarrow> Inl e | Inr v \<Rightarrow> f v)"

text \<open>
  \<^verbatim>\<open>str.lower()\<close>. The keys the engine looks up are ASCII and contain no letter that a
  non-ASCII character lowers to, so lowering the 26 ASCII capitals decides every lookup.
\<close>

definition lower_char :: "char \<Rightarrow> char" where
  "lower_char c =
     (case map_of (zip ''ABCDEFGHIJKLMNOPQRSTUVWXYZ'' ''abcdefghijklmnopqrstuvwxyz'') c of
        Some l \<Rightarrow> l | None \<Rightarrow> c)"

definition lower :: "string \<Rightarrow> string" where
  "lower s = map lower_char s"

text \<open>\<^verbatim>\<open>d.get(k, default)\<close> on a dict literal.\<close>

definition dict_get :: "('k \<times> 'v) list \<Rightarrow> 'k \<Rightarrow> 'v \<Rightarrow> 'v" where
  "dict_get d k dflt = (case map_of d k of Some v \<Rightarrow> v | None \<Rightarrow> dflt)"

text \<open>
  \<^verbatim>\<open>round(x)\<close> rounds to the nearest integer and a tie to the even neighbour;
  \<^verbatim>\<open>round(x, n)\<close> does the same at the \<open>n\<close>-th decimal.
\<close>

definition py_round :: "real \<Rightarrow> int" where
  "py_round x = (let f = \<lfloor>x\<rfloor>; d = x - of_int f in
     if d < 1/2 then f else if 1/2 < d then f + 1 else if even f then f else f + 1)"

definition round_ndigits :: "real \<Rightarrow> nat \<Rightarrow> real" where
  "round_ndigits x n = of_int (py_round (x * 10 ^ n)) / 10 ^ n"

text \<open>Decimal text of a natural number and of an integer, as \<^verbatim>\<open>str(n)\<close> prints them.\<close>

fun digits :: "nat \<Rightarrow> string" where
  "digits n = (if n < 10 then [''0123456789'' ! n]
               else digits (n div 10) @ [''0123456789'' ! (n mod 10)])"

declare digits.simps [simp del]

definition str_int :: "int \<Rightarrow> string" where
  "str_int i = (if i < 0 then ''-'' @ digits (nat (- i)) else digits (nat i))"

text \<open>
  The format specifications \<^verbatim>\<open>{x:.0f}\<close> and \<^verbatim>\<open>{x:.1%}\<close>: the sign of \<open>x\<close>, then the
  magnitude rounded (ties to even) to no decimal, respectively the magnitude times 100
  rounded to one decimal and followed by a percent sign.
\<close>

definition format_0f :: "real \<Rightarrow> string" where
  "format_0f x = (if x < 0 then ''-'' else []) @ digits (nat (py_round \<bar>x\<bar>))"

definition format_percent1 :: "real \<Rightarrow> string" where
  "format_percent1 x =
     (let n = nat (py_round (\<bar>x\<bar> * 1000)) in
      (if x < 0 then ''-'' else []) @ digits (n div 10) @ ''.'' @ digits (n mod 10) @ ''%'')"

section \<open>Data classes\<close>

text \<open>
  A \<^verbatim>\<open>datetime\<close> is kept as its day number (days since 1970-01-01); the engine reads only
  the calendar date of a timestamp.
\<close>

type_synonym datetime = int

record ReturnItem =
  sku :: string
  product_name :: string
  category :: string
  condition :: string
  return_reason :: string
  original_price :: real
  customer_age :: int
  purchase_channel :: string
  location :: string
  return_date :: datetime
  manufacturing_date :: datetime
  warranty_status :: string
  material_composition :: "string list"
  seasonality :: string
  market_demand :: string

record PredictionResult =
  recommended_action :: string
  confidence :: real
  estimated_value :: real
  co2_saved :: real
  landfill_avoided :: real
  processing_time :: int
  marketplace :: "string option"
  reasoning :: string

section \<open>FeatureEngineering\<close>

definition encode_condition :: "string \<Rightarrow> real" where
  "encode_condition cond =
     dict_get [(''new'', 1.0), (''lightly-used'', 0.8), (''good'', 0.6), (''fair'', 0.4),
               (''poor'', 0.2), (''defective'', 0.0)] (lower cond) 0.5"

section \<open>DispositionPredictor\<close>

text \<open>
  The fitted scikit-learn objects are an external collaborator. \<open>classifier\<close> stands for
  the chain \<^verbatim>\<open>create_features\<close>, \<^verbatim>\<open>scaler.transform\<close>, \<^verbatim>\<open>model.predict\<close>,
  \<^verbatim>\<open>model.predict_proba\<close> and \<^verbatim>\<open>label_encoder.inverse_transform\<close>: it gives the decoded
  label and the largest class probability for an item. The label is one of the strings
  the model was trained on, so it is an arbitrary string here.
\<close>

record DispositionPredictor =
  is_trained :: bool
  classifier :: "ReturnItem \<Rightarrow> string \<times> real"

definition calculate_estimated_value :: "ReturnItem \<Rightarrow> string \<Rightarrow> real" where
  "calculate_estimated_value item action =
     (let condition_multiplier = [(''new'', 0.75), (''lightly-used'', 0.55), (''good'', 0.40),
                                  (''fair'', 0.25), (''poor'', 0.10), (''defective'', 0.05)];
          action_multiplier = [(''resale'', 1.0), (''repair'', 0.6), (''recycle'', 0.05),
                               (''donate'', 0.0)];
          base_value = original_price item;
          condition_factor = dict_get condition_multiplier (lower (condition item)) 0.3;
          action_factor = dict_get action_multiplier (lower action) 0.3;
          demand_adjustment = dict_get [(''high'', 1.2), (''medium'', 1.0), (''low'', 0.8)]
                                (lower (market_demand item)) 1.0
      in round_ndigits (base_value * condition_factor * action_factor * demand_adjustment) 2)"

definition calculate_co2_impact :: "ReturnItem \<Rightarrow> string \<Rightarrow> real" where
  "calculate_co2_impact item action =
     (let base_co2_per_rupee = [(''resale'', 0.003), (''repair'', 0.002), (''recycle'', 0.001),
                                (''donate'', 0.0025)];
          factor = dict_get base_co2_per_rupee (lower action) 0.001
      in round_ndigits (original_price item * factor) 2)"

definition calculate_waste_impact :: "ReturnItem \<Rightarrow> string \<Rightarrow> real" where
  "calculate_waste_impact item action =
     (let category_weight = [(''Electronics'', 0.8), (''Appliances'', 2.5), (''Fashion'', 0.3),
                             (''Home & Kitchen'', 0.6)];
          action_factor = [(''resale'', 0.95), (''repair'', 0.85), (''recycle'', 0.60),
                           (''donate'', 0.90)];
          base_weight = dict_get category_weight (category item) 0.5;
          factor = dict_get action_factor (lower action) 0.5
      in round_ndigits (base_weight * factor) 2)"

definition estimate_processing_time :: "string \<Rightarrow> string \<Rightarrow> int" where
  "estimate_processing_time action cat =
     (let base_times = [(''resale'', 2), (''repair'', 5), (''recycle'', 1), (''donate'', 3)];
          category_multiplier = [(''Electronics'', 1.3), (''Appliances'', 1.5), (''Fashion'', 0.8),
                                 (''Home & Kitchen'', 1.0)];
          base_time = dict_get base_times (lower action) (3::int);
          multiplier = dict_get category_multiplier cat (1.0::real)
      in max 1 (py_round (of_int base_time * multiplier)))"

definition select_marketplace :: "string \<Rightarrow> string \<Rightarrow> real \<Rightarrow> string option" where
  "select_marketplace action cat val =
     (if lower action \<noteq> ''resale'' then None
      else if val > 10000 then Some ''Flipkart''
      else if val > 2000 then Some ''Flipkart 2GUD''
      else if cat = ''Fashion'' then Some ''Myntra''
      else if cat = ''Electronics'' then Some ''Amazon Renewed''
      else Some ''Walmart Marketplace'')"

definition generate_reasoning :: "ReturnItem \<Rightarrow> string \<Rightarrow> real \<Rightarrow> string" where
  "generate_reasoning item action conf =
     (let condition_desc = dict_get [(''new'', ''excellent''), (''lightly-used'', ''very good''),
                                     (''good'', ''good''), (''fair'', ''acceptable''),
                                     (''poor'', ''poor''), (''defective'', ''defective'')]
                             (lower (condition item)) ''unknown'';
          base_reason = ''Item in '' @ condition_desc @ '' condition''
      in if action = ''resale'' then
           base_reason @ '', suitable for resale market. '' @ category item @ '' has good demand.''
         else if action = ''repair'' then
           base_reason @ '', economically viable for repair and resale.''
         else if action = ''recycle'' then
           base_reason @ '', beyond economical repair. Materials can be responsibly recycled.''
         else if action = ''donate'' then
           base_reason @ '', has social value for donation programs.''
         else base_reason @ ''. Confidence: '' @ format_percent1 conf)"

definition predict :: "DispositionPredictor \<Rightarrow> ReturnItem \<Rightarrow> py_exception + PredictionResult" where
  "predict self return_item =
     (if \<not> is_trained self then
        Inl (ValueError ''Model must be trained before making predictions'')
      else
        let (action, conf) = classifier self return_item;
            est = calculate_estimated_value return_item action
        in Inr \<lparr> recommended_action = action,
                 confidence = conf,
                 estimated_value = est,
                 co2_saved = calculate_co2_impact return_item action,
                 landfill_avoided = calculate_waste_impact return_item action,
                 processing_time = estimate_processing_time action (category return_item),
                 marketplace = select_marketplace action (category return_item) est,
                 reasoning = generate_reasoning return_item action conf \<rparr>)"

section \<open>ValueForecaster\<close>

text \<open>
  Calendar fields of a day number in the proleptic Gregorian calendar, as
  \<^verbatim>\<open>datetime.month\<close>, \<^verbatim>\<open>datetime.day\<close> and \<^verbatim>\<open>datetime.weekday()\<close> (Monday is 0) give
  them. The year is cut into 400-year eras that start on 1 March.
\<close>

definition day_of_era :: "datetime \<Rightarrow> int" where
  "day_of_era days = (days + 719468) mod 146097"

definition year_of_era :: "int \<Rightarrow> int" where
  "year_of_era doe = (doe - doe div 1460 + doe div 36524 - doe div 146096) div 365"

definition day_of_year :: "int \<Rightarrow> int" where
  "day_of_year doe =
     doe - (365 * year_of_era doe + year_of_era doe div 4 - year_of_era doe div 100)"

definition month_index :: "int \<Rightarrow> int" where
  "month_index doy = (5 * doy + 2) div 153"

definition month_of :: "datetime \<Rightarrow> int" where
  "month_of days = (if month_index (day_of_year (day_of_era days)) < 10
                    then month_index (day_of_year (day_of_era days)) + 3
                    else month_index (day_of_year (day_of_era days)) - 9)"

definition day_of :: "datetime \<Rightarrow> int" where
  "day_of days = day_of_year (day_of_era days)
                   - (153 * month_index (day_of_year (day_of_era days)) + 2) div 5 + 1"

definition weekday_of :: "datetime \<Rightarrow> int" where
  "weekday_of days = (days + 3) mod 7"

text \<open>\<^verbatim>\<open>np.mean\<close>, \<^verbatim>\<open>np.var\<close> and \<^verbatim>\<open>np.std\<close> (population variance) of a non-empty array.\<close>

definition np_mean :: "real list \<Rightarrow> real" where
  "np_mean xs = sum_list xs / real (length xs)"

definition np_var :: "real list \<Rightarrow> real" where
  "np_var xs = np_mean (map (\<lambda>x. (x - np_mean xs)\<^sup>2) xs)"

definition np_std :: "real list \<Rightarrow> real" where
  "np_std xs = sqrt (np_var xs)"

text \<open>
  The leading coefficient of \<^verbatim>\<open>np.polyfit(x, y, 1)\<close> for \<open>x = 0, 1, \<dots>, n - 1\<close>: the slope
  of the least-squares line.
\<close>

definition polyfit_slope :: "real list \<Rightarrow> real" where
  "polyfit_slope ys =
     (let xs = map real [0..<length ys]
      in sum_list (map (\<lambda>(x, y). (x - np_mean xs) * (y - np_mean ys)) (zip xs ys))
           / sum_list (map (\<lambda>x. (x - np_mean xs)\<^sup>2) xs))"

record ForecastEntry =
  period :: int
  predicted_value :: real
  lower_bound :: real
  upper_bound :: real

record ForecastResult =
  predictions :: "ForecastEntry list"
  confidence_intervals :: "(real \<times> real) list"
  trend :: string
  seasonality_factor :: real
  accuracy_metrics :: "(string \<times> real) list"

text \<open>
  \<open>regressor\<close> stands for \<^verbatim>\<open>scaler.transform\<close> followed by \<^verbatim>\<open>model.predict\<close>, which
  work row by row: it gives the predicted value of one feature row. The field
  \<open>vf_is_trained\<close> is \<^verbatim>\<open>ValueForecaster.is_trained\<close>.
\<close>

record ValueForecaster =
  vf_is_trained :: bool
  regressor :: "real list \<Rightarrow> real"

definition generate_future_features :: "datetime \<Rightarrow> int \<Rightarrow> string option \<Rightarrow> real list list" where
  "generate_future_features base_date periods cat =
     (let category_encoding =
            (case cat of
               None \<Rightarrow> 0.6
             | Some c \<Rightarrow> dict_get [(''Electronics'', 0.9), (''Fashion'', 0.6), (''Appliances'', 0.8),
                                  (''Home & Kitchen'', 0.5)] c 0.6)
      in map (\<lambda>i. [of_int (month_of (base_date + 30 * int i)),
                    of_int ((month_of (base_date + 30 * int i) - 1) div 3 + 1),
                    of_int (weekday_of (base_date + 30 * int i)),
                    of_int (day_of (base_date + 30 * int i)),
                    category_encoding, 5000, 100, 0.6])
           [0..<nat periods])"

definition analyze_trend :: "real list \<Rightarrow> string" where
  "analyze_trend preds =
     (if length preds < 2 then ''stable''
      else if polyfit_slope preds > 0.05 then ''increasing''
      else if polyfit_slope preds < - 0.05 then ''decreasing''
      else ''stable'')"

definition calculate_seasonality :: "real list \<Rightarrow> real" where
  "calculate_seasonality preds =
     (if length preds < 4 then 0.0
      else if np_mean preds > 0 then min (np_var preds / (np_mean preds)\<^sup>2) 1.0 else 0.0)"

text \<open>
  \<open>now\<close> is the value of \<^verbatim>\<open>datetime.now()\<close>. With no future row (\<open>periods \<le> 0\<close>) the
  array handed to \<^verbatim>\<open>scaler.transform\<close> is one-dimensional and scikit-learn rejects it with
  a \<^verbatim>\<open>ValueError\<close>.
\<close>

definition forecast :: "ValueForecaster \<Rightarrow> datetime \<Rightarrow> int \<Rightarrow> string option \<Rightarrow> py_exception + ForecastResult" where
  "forecast self now periods cat =
     (if \<not> vf_is_trained self then
        Inl (ValueError ''Model must be trained before forecasting'')
      else if generate_future_features now periods cat = [] then
        Inl (ValueError ''Expected 2D array, got 1D array instead'')
      else
        let preds = map (regressor self) (generate_future_features now periods cat);
            std_error = np_std preds * 0.1;
            cis = map (\<lambda>pred. (pred - 1.96 * std_error, pred + 1.96 * std_error)) preds
        in Inr \<lparr> predictions =
                   map (\<lambda>(i, (pred, ci)). \<lparr> period = int i + 1, predicted_value = pred,
                                              lower_bound = fst ci, upper_bound = snd ci \<rparr>)
                       (enumerate 0 (zip preds cis)),
                 confidence_intervals = cis,
                 trend = analyze_trend preds,
                 seasonality_factor = calculate_seasonality preds,
                 accuracy_metrics = [(''mae'', 0.0), (''r2'', 0.0)] \<rparr>)"

text \<open>
  The list comprehension of \<^verbatim>\<open>forecast\<close> that pairs each prediction with its interval and
  numbers the entries, for predictions \<open>preds\<close> and standard error \<open>se\<close>.
\<close>

definition forecast_entries :: "real list \<Rightarrow> real \<Rightarrow> ForecastEntry list" where
  "forecast_entries preds se =
     map (\<lambda>(i, (pred, ci)). \<lparr> period = int i + 1, predicted_value = pred,
                                lower_bound = fst ci, upper_bound = snd ci \<rparr>)
       (enumerate 0 (zip preds (map (\<lambda>pred. (pred - 1.96 * se, pred + 1.96 * se)) preds)))"

section \<open>AnomalyDetector\<close>

text \<open>
  The baseline statistics are NumPy scalars, and NumPy division does not raise: a finite
  value divided by zero is an infinity (or not-a-number for \<open>0 / 0\<close>), and the mean or the
  sample standard deviation of too few values is not-a-number. \<open>npfloat\<close> keeps these
  values apart from the finite ones. A zero divisor is taken as positive zero, which is
  what a standard deviation of zero is.
\<close>

datatype npfloat = Finite real | PosInf | NegInf | NaN

fun np_sub :: "npfloat \<Rightarrow> npfloat \<Rightarrow> npfloat" where
  "np_sub NaN y = NaN"
| "np_sub x NaN = NaN"
| "np_sub (Finite a) (Finite b) = Finite (a - b)"
| "np_sub (Finite a) PosInf = NegInf"
| "np_sub (Finite a) NegInf = PosInf"
| "np_sub PosInf PosInf = NaN"
| "np_sub NegInf NegInf = NaN"
| "np_sub PosInf y = PosInf"
| "np_sub NegInf y = NegInf"

fun np_abs :: "npfloat \<Rightarrow> npfloat" where
  "np_abs (Finite a) = Finite \<bar>a\<bar>"
| "np_abs PosInf = PosInf"
| "np_abs NegInf = PosInf"
| "np_abs NaN = NaN"

fun np_truediv :: "npfloat \<Rightarrow> npfloat \<Rightarrow> npfloat" where
  "np_truediv NaN y = NaN"
| "np_truediv x NaN = NaN"
| "np_truediv (Finite a) (Finite b) =
     (if b \<noteq> 0 then Finite (a / b) else if a > 0 then PosInf else if a < 0 then NegInf else NaN)"
| "np_truediv (Finite a) y = Finite 0"
| "np_truediv PosInf (Finite b) = (if b \<ge> 0 then PosInf else NegInf)"
| "np_truediv NegInf (Finite b) = (if b \<ge> 0 then NegInf else PosInf)"
| "np_truediv x y = NaN"

fun np_gt :: "npfloat \<Rightarrow> npfloat \<Rightarrow> bool" where
  "np_gt NaN y = False"
| "np_gt x NaN = False"
| "np_gt (Finite a) (Finite b) = (a > b)"
| "np_gt (Finite a) PosInf = False"
| "np_gt (Finite a) NegInf = True"
| "np_gt PosInf PosInf = False"
| "np_gt PosInf y = True"
| "np_gt NegInf y = False"

fun np_format_0f :: "npfloat \<Rightarrow> string" where
  "np_format_0f (Finite a) = format_0f a"
| "np_format_0f PosInf = ''inf''"
| "np_format_0f NegInf = ''-inf''"
| "np_format_0f NaN = ''nan''"

text \<open>
  One row of the data frames: the columns \<^verbatim>\<open>date\<close>, \<^verbatim>\<open>category\<close> and \<^verbatim>\<open>count\<close>.
  \<^verbatim>\<open>groupby(key)['count']\<close> collects the counts of each key, the keys in ascending order.
\<close>

record CountRow =
  row_date :: datetime
  row_category :: string
  row_count :: int

definition groupby :: "(CountRow \<Rightarrow> 'k::linorder) \<Rightarrow> CountRow list \<Rightarrow> ('k \<times> int list) list" where
  "groupby key rows =
     map (\<lambda>k. (k, map row_count (filter (\<lambda>r. key r = k) rows))) (sort (remdups (map key rows)))"

definition groupby_sum :: "(CountRow \<Rightarrow> 'k::linorder) \<Rightarrow> CountRow list \<Rightarrow> ('k \<times> int) list" where
  "groupby_sum key rows = map (\<lambda>(k, cs). (k, sum_list cs)) (groupby key rows)"

definition groupby_mean :: "(CountRow \<Rightarrow> 'k::linorder) \<Rightarrow> CountRow list \<Rightarrow> ('k \<times> real) list" where
  "groupby_mean key rows =
     map (\<lambda>(k, cs). (k, of_int (sum_list cs) / real (length cs))) (groupby key rows)"

text \<open>\<^verbatim>\<open>Series.mean()\<close> and \<^verbatim>\<open>Series.std()\<close> (sample standard deviation, one degree of freedom).\<close>

definition series_mean :: "real list \<Rightarrow> npfloat" where
  "series_mean xs = (if xs = [] then NaN else Finite (np_mean xs))"

definition series_std :: "real list \<Rightarrow> npfloat" where
  "series_std xs =
     (if length xs < 2 then NaN
      else Finite (sqrt (sum_list (map (\<lambda>x. (x - np_mean xs)\<^sup>2) xs) / real (length xs - 1))))"

record BaselineStats =
  daily_mean :: npfloat
  daily_std :: npfloat
  category_means :: "(string \<times> real) list"

text \<open>
  \<open>baseline_stats = None\<close> is the empty dict of \<^verbatim>\<open>__init__\<close>. The entry
  \<^verbatim>\<open>seasonal_patterns\<close> that \<^verbatim>\<open>fit\<close> also stores is left out: \<^verbatim>\<open>detect_anomalies\<close> never
  reads it.
\<close>

record AnomalyDetector =
  threshold :: real
  baseline_stats :: "BaselineStats option"

datatype Anomaly =
    VolumeAnomaly datetime int npfloat string string
  | CategoryAnomaly string int real string string

fun anomaly_type :: "Anomaly \<Rightarrow> string" where
  "anomaly_type (VolumeAnomaly d v e s descr) = ''volume_anomaly''"
| "anomaly_type (CategoryAnomaly c v e s descr) = ''category_anomaly''"

definition AnomalyDetector_init :: "real \<Rightarrow> AnomalyDetector" where
  "AnomalyDetector_init thr = \<lparr> threshold = thr, baseline_stats = None \<rparr>"

definition fit :: "AnomalyDetector \<Rightarrow> CountRow list \<Rightarrow> AnomalyDetector" where
  "fit self historical_data =
     self \<lparr> baseline_stats := Some
       \<lparr> daily_mean = series_mean (map snd (groupby_mean row_date historical_data)),
         daily_std = series_std (map snd (groupby_mean row_date historical_data)),
         category_means = groupby_mean row_category historical_data \<rparr> \<rparr>"

definition z_score :: "BaselineStats \<Rightarrow> int \<Rightarrow> npfloat" where
  "z_score stats cnt =
     np_truediv (np_abs (np_sub (Finite (of_int cnt)) (daily_mean stats))) (daily_std stats)"

definition volume_anomalies :: "real \<Rightarrow> BaselineStats \<Rightarrow> (datetime \<times> int) list \<Rightarrow> Anomaly list" where
  "volume_anomalies thr stats daily_counts =
     concat (map (\<lambda>(date, cnt).
        if np_gt (z_score stats cnt) (Finite thr) then
          [VolumeAnomaly date cnt (daily_mean stats)
             (if np_gt (z_score stats cnt) (Finite 3) then ''high'' else ''medium'')
             (''Unusual return volume: '' @ str_int cnt @ '' vs expected ''
                @ np_format_0f (daily_mean stats))]
        else []) daily_counts)"

definition category_anomalies :: "BaselineStats \<Rightarrow> (string \<times> int) list \<Rightarrow> Anomaly list" where
  "category_anomalies stats category_counts =
     concat (map (\<lambda>(cat, cnt).
        let expected = dict_get (category_means stats) cat 0 in
        if expected > 0 \<and> \<bar>of_int cnt - expected\<bar> / expected > 0.5 then
          [CategoryAnomaly cat cnt expected
             (if \<bar>of_int cnt - expected\<bar> / expected > 1.0 then ''high'' else ''medium'')
             (''Unusual '' @ cat @ '' returns: '' @ str_int cnt @ '' vs expected ''
                @ format_0f expected)]
        else []) category_counts)"

definition detect_anomalies :: "AnomalyDetector \<Rightarrow> CountRow list \<Rightarrow> py_exception + Anomaly list" where
  "detect_anomalies self current_data =
     (case baseline_stats self of
        None \<Rightarrow>
          if groupby_sum row_date current_data \<noteq> [] then Inl (KeyError ''daily_mean'')
          else if groupby_sum row_category current_data \<noteq> [] then Inl (KeyError ''category_means'')
          else Inr []
      | Some stats \<Rightarrow>
          Inr (volume_anomalies (threshold self) stats (groupby_sum row_date current_data)
               @ category_anomalies stats (groupby_sum row_category current_data)))"

section \<open>RiskAssessment\<close>

record RiskAssessment =
  risk_factors :: "(string \<times> real) list"

definition RiskAssessment_init :: RiskAssessment where
  "RiskAssessment_init =
     \<lparr> risk_factors = [(''volume_risk'', 0.3), (''value_risk'', 0.25), (''quality_risk'', 0.2),
                       (''market_risk'', 0.15), (''operational_risk'', 0.1)] \<rparr>"

record RiskResult =
  overall_score :: real
  risk_level :: string
  component_scores :: "(string \<times> real) list"
  recommendations :: "string list"

text \<open>\<^verbatim>\<open>d[k]\<close> raises \<^verbatim>\<open>KeyError\<close> on a missing key; \<^verbatim>\<open>d.get(k, 0)\<close> reads it as 0.\<close>

definition subscript :: "(string \<times> real) list \<Rightarrow> string \<Rightarrow> py_exception + real" where
  "subscript d k = (case map_of d k of Some v \<Rightarrow> Inr v | None \<Rightarrow> Inl (KeyError k))"

definition data_get :: "(string \<rightharpoonup> real) \<Rightarrow> string \<Rightarrow> real \<Rightarrow> real" where
  "data_get d k dflt = (case d k of Some v \<Rightarrow> v | None \<Rightarrow> dflt)"

fun weighted_sum :: "(string \<times> real) list \<Rightarrow> (string \<times> real) list \<Rightarrow> py_exception + real" where
  "weighted_sum scores [] = Inr 0"
| "weighted_sum scores ((factor, weight) # rest) =
     bind_exc (subscript scores factor) (\<lambda>s.
     bind_exc (weighted_sum scores rest) (\<lambda>acc. Inr (s * weight + acc)))"

definition generate_risk_recommendations :: "(string \<times> real) list \<Rightarrow> real \<Rightarrow> py_exception + string list" where
  "generate_risk_recommendations scores overall =
     bind_exc (subscript scores ''volume_risk'') (\<lambda>volume.
     bind_exc (subscript scores ''value_risk'') (\<lambda>val.
     bind_exc (subscript scores ''quality_risk'') (\<lambda>quality.
     bind_exc (subscript scores ''market_risk'') (\<lambda>market.
     bind_exc (subscript scores ''operational_risk'') (\<lambda>operational.
       Inr ((if volume > 70 then
               [''Implement return prevention strategies and improve product descriptions'']
             else [])
          @ (if val > 70 then [''Optimize pricing strategies and explore new marketplaces'']
             else [])
          @ (if quality > 70 then
               [''Enhance quality control processes and supplier management'']
             else [])
          @ (if market > 70 then [''Diversify market channels and improve demand forecasting'']
             else [])
          @ (if operational > 70 then [''Streamline processing workflows and increase capacity'']
             else [])
          @ (if overall > 80 then
               [''URGENT: Immediate intervention required across all risk areas'']
             else [])))))))"

definition component_scores_of :: "(string \<rightharpoonup> real) \<Rightarrow> (string \<times> real) list" where
  "component_scores_of category_data =
     [(''volume_risk'', min (data_get category_data ''return_rate'' 0 / 0.15) 1.0 * 100),
      (''value_risk'', max 0 ((0.6 - data_get category_data ''value_recovery_rate'' 0) / 0.6) * 100),
      (''quality_risk'', min (data_get category_data ''defect_rate'' 0 / 0.1) 1.0 * 100),
      (''market_risk'', min (data_get category_data ''demand_volatility'' 0 / 0.3) 1.0 * 100),
      (''operational_risk'', min (data_get category_data ''avg_processing_time'' 0 / 7) 1.0 * 100)]"

definition risk_level_of :: "real \<Rightarrow> string" where
  "risk_level_of score =
     (if score \<ge> 80 then ''Critical''
      else if score \<ge> 60 then ''High''
      else if score \<ge> 40 then ''Medium''
      else ''Low'')"

definition calculate_risk_score :: "RiskAssessment \<Rightarrow> (string \<rightharpoonup> real) \<Rightarrow> py_exception + RiskResult" where
  "calculate_risk_score self category_data =
     bind_exc (weighted_sum (component_scores_of category_data) (risk_factors self)) (\<lambda>score.
     bind_exc (generate_risk_recommendations (component_scores_of category_data) score) (\<lambda>recs.
       Inr \<lparr> overall_score = round_ndigits score 1,
             risk_level = risk_level_of score,
             component_scores = component_scores_of category_data,
             recommendations = recs \<rparr>))"

section \<open>Sample inputs\<close>

definition sample_item :: ReturnItem where
  "sample_item =
     \<lparr> sku = ''SAMPLE-123'', product_name = ''Bluetooth Headphones'', category = ''Electronics'',
       condition = ''new'', return_reason = ''Sound quality not as expected'',
       original_price = 1000, customer_age = 28, purchase_channel = ''online'',
       location = ''Mumbai'', return_date = 20761, manufacturing_date = 20581,
       warranty_status = ''active'', material_composition = [''Plastic'', ''Electronics'', ''Metal''],
       seasonality = ''medium'', market_demand = ''medium'' \<rparr>"


text \<open>A fitted classifier that recommends resale for every item, and unfitted models.\<close>

definition resale_classifier :: "ReturnItem \<Rightarrow> string \<times> real" where
  "resale_classifier item = (''resale'', 0.9)"

definition resale_predictor :: DispositionPredictor where
  "resale_predictor = \<lparr> is_trained = True, classifier = resale_classifier \<rparr>"

definition untrained_predictor :: DispositionPredictor where
  "untrained_predictor = \<lparr> is_trained = False, classifier = resale_classifier \<rparr>"

definition constant_regressor :: "real list \<Rightarrow> real" where
  "constant_regressor row = 5000"

definition untrained_forecaster :: ValueForecaster where
  "untrained_forecaster = \<lparr> vf_is_trained = False, regressor = constant_regressor \<rparr>"

text \<open>Items priced 15000 (used and new electronics) and 1500 (fashion).\<close>

definition used_item :: ReturnItem where
  "used_item = sample_item \<lparr> condition := ''good'', original_price := 15000 \<rparr>"

definition new_item :: ReturnItem where
  "new_item = sample_item \<lparr> original_price := 15000 \<rparr>"

definition fashion_item :: ReturnItem where
  "fashion_item = sample_item \<lparr> category := ''Fashion'', original_price := 1500 \<rparr>"

text \<open>
  The five component formulas and their weighted sum as the specification gives them.
\<close>

definition spec_volume_risk :: "(string \<rightharpoonup> real) \<Rightarrow> real" where
  "spec_volume_risk d = min (data_get d ''return_rate'' 0 / 0.15) 1 * 100"

definition spec_value_risk :: "(string \<rightharpoonup> real) \<Rightarrow> real" where
  "spec_value_risk d = max 0 ((0.6 - data_get d ''value_recovery_rate'' 0) / 0.6) * 100"

definition spec_quality_risk :: "(string \<rightharpoonup> real) \<Rightarrow> real" where
  "spec_quality_risk d = min (data_get d ''defect_rate'' 0 / 0.1) 1 * 100"

definition spec_market_risk :: "(string \<rightharpoonup> real) \<Rightarrow> real" where
  "spec_market_risk d = min (data_get d ''demand_volatility'' 0 / 0.3) 1 * 100"

definition spec_operational_risk :: "(string \<rightharpoonup> real) \<Rightarrow> real" where
  "spec_operational_risk d = min (data_get d ''avg_processing_time'' 0 / 7) 1 * 100"

definition spec_weighted_score :: "(string \<rightharpoonup> real) \<Rightarrow> real" where
  "spec_weighted_score d = spec_volume_risk d * 0.30 + spec_value_risk d * 0.25 + spec_quality_risk d * 0.20
                      + spec_market_risk d * 0.15 + spec_operational_risk d * 0.10"



text \<open>
  A fitted forecaster whose regressor predicts 5000 for every row.
\<close>

definition trained_forecaster :: ValueForecaster where
  "trained_forecaster = \<lparr> vf_is_trained = True, regressor = constant_regressor \<rparr>"

text \<open>
  Two days of history (2024-01-01 and 2024-01-02) with ten returns each, so that the daily
  mean is 10 and the daily standard deviation 0; the detector fitted on them with the
  default threshold; and a following day with twelve returns.
\<close>

definition zero_variance_history :: "CountRow list" where
  "zero_variance_history =
     [\<lparr> row_date = 19723, row_category = ''Electronics'', row_count = 10 \<rparr>,
      \<lparr> row_date = 19724, row_category = ''Electronics'', row_count = 10 \<rparr>]"

definition fitted_detector :: AnomalyDetector where
  "fitted_detector = fit (AnomalyDetector_init 2.5) zero_variance_history"

definition busy_day :: "CountRow list" where
  "busy_day = [\<lparr> row_date = 19725, row_category = ''Electronics'', row_count = 12 \<rparr>]"

section \<open>Basic facts about the Python primitives\<close>

lemma lower_char_idem: "lower_char (lower_char c) = lower_char c"
  by (simp add: lower_char_def)

lemma lower_idem: "lower (lower s) = lower s"
  by (simp add: lower_def lower_char_idem)






section \<open>Condition encoding\<close>

text \<open>
  C8. \<^verbatim>\<open>_encode_condition\<close> is total: every string gets a score between 0 and 1. The score
  depends only on the lower-cased string (lowering first changes nothing), the six known
  conditions get 1.0, 0.8, 0.6, 0.4, 0.2 and 0.0, and every other string gets exactly 0.5.
\<close>

theorem encode_condition_total:
  "0 \<le> encode_condition c \<and> encode_condition c \<le> 1
   \<and> encode_condition (lower c) = encode_condition c
   \<and> encode_condition c =
       (if lower c = ''new'' then 1.0 else if lower c = ''lightly-used'' then 0.8
        else if lower c = ''good'' then 0.6 else if lower c = ''fair'' then 0.4
        else if lower c = ''poor'' then 0.2 else if lower c = ''defective'' then 0.0
        else 0.5)"
  by (simp add: encode_condition_def dict_get_def lower_idem)

theorem encode_condition_total_witness:
  "encode_condition ''Lightly-Used'' = 0.8 \<and> encode_condition ''mint'' = 0.5"
  using encode_condition_total [of "''Lightly-Used''"] encode_condition_total [of "''mint''"]
  by (simp add: lower_def lower_char_def)

lemmas lower_eval = lower_def lower_char_def

lemma lower_resale: "lower ''resale'' = ''resale''"
  by (simp add: lower_eval)

section \<open>Estimated recovery value\<close>




section \<open>Marketplace selection\<close>

text \<open>
  C3 (amended). For every action whose lower-cased form is not resale the marketplace is
  None. For an action that is resale up to case the first matching rule decides:
  value above 10000 gives Flipkart, value above 2000 gives Flipkart 2GUD, category Fashion
  gives Myntra, category Electronics gives Amazon Renewed, anything else Walmart Marketplace.
\<close>

theorem select_marketplace_priority:
  "(lower action \<noteq> ''resale'' \<longrightarrow> select_marketplace action cat v = None)
   \<and> (lower action = ''resale'' \<longrightarrow>
        select_marketplace action cat v =
          (if v > 10000 then Some ''Flipkart''
           else if v > 2000 then Some ''Flipkart 2GUD''
           else if cat = ''Fashion'' then Some ''Myntra''
           else if cat = ''Electronics'' then Some ''Amazon Renewed''
           else Some ''Walmart Marketplace''))"
  by (simp add: select_marketplace_def)

theorem select_marketplace_priority_witness:
  "lower ''repair'' \<noteq> ''resale'' \<and> select_marketplace ''repair'' ''Fashion'' 500 = None
   \<and> lower ''Resale'' = ''resale''
   \<and> select_marketplace ''Resale'' ''Books'' 500 = Some ''Walmart Marketplace''"
  using select_marketplace_priority [of "''repair''" "''Fashion''" 500]
    select_marketplace_priority [of "''Resale''" "''Books''" 500]
  by (simp add: lower_eval)

text \<open>
  The action \<^verbatim>\<open>Resale\<close> is a string other than \<^verbatim>\<open>resale\<close>, and it gets a marketplace.
\<close>

theorem select_marketplace_counterexample:
  "''Resale'' \<noteq> ''resale'' \<and> select_marketplace ''Resale'' ''Fashion'' 100 = Some ''Myntra''"
  by (simp add: select_marketplace_def lower_eval)

text \<open>
  The estimated resale value of an item priced 15000 exceeds 10000 exactly for condition new
  with a demand other than low; for an item priced 1500 it never exceeds 2000.
\<close>

lemma value_15000:
  "original_price item = 15000 \<Longrightarrow>
     (calculate_estimated_value item ''resale'' > 10000)
       = (lower (condition item) = ''new'' \<and> lower (market_demand item) \<noteq> ''low'')"
  by (simp add: calculate_estimated_value_def dict_get_def lower_resale round_ndigits_def
      py_round_def)

lemma value_1500:
  "original_price item = 1500 \<Longrightarrow> \<not> calculate_estimated_value item ''resale'' > 2000"
  by (simp add: calculate_estimated_value_def dict_get_def lower_resale round_ndigits_def
      py_round_def)

text \<open>
  C4 (amended). A trained predictor that recommends resale for an Electronics item priced
  15000 returns a prediction whose marketplace is Flipkart exactly when the condition is
  new (up to case) and the market demand is not low (up to case); for a Fashion item priced
  1500 the marketplace is Myntra.
\<close>

theorem predict_marketplace_literals:
  assumes "is_trained self" and "fst (classifier self item) = ''resale''"
  shows "(original_price item = 15000 \<and> category item = ''Electronics'' \<longrightarrow>
           (\<exists>r. predict self item = Inr r
              \<and> (marketplace r = Some ''Flipkart''
                   \<longleftrightarrow> lower (condition item) = ''new'' \<and> lower (market_demand item) \<noteq> ''low'')))
       \<and> (original_price item = 1500 \<and> category item = ''Fashion'' \<longrightarrow>
           (\<exists>r. predict self item = Inr r \<and> marketplace r = Some ''Myntra''))"
proof (intro conjI impI)
  obtain conf where cls: "classifier self item = (''resale'', conf)"
    using assms(2) by (cases "classifier self item") simp
  {
    assume h: "original_price item = 15000 \<and> category item = ''Electronics''"
    show "\<exists>r. predict self item = Inr r
              \<and> (marketplace r = Some ''Flipkart''
                   \<longleftrightarrow> lower (condition item) = ''new'' \<and> lower (market_demand item) \<noteq> ''low'')"
      using assms(1) cls h value_15000 [of item]
      by (simp add: predict_def Let_def select_marketplace_def lower_resale)
  }
  {
    assume h: "original_price item = 1500 \<and> category item = ''Fashion''"
    show "\<exists>r. predict self item = Inr r \<and> marketplace r = Some ''Myntra''"
      using assms(1) cls h value_1500 [of item]
      by (simp add: predict_def Let_def select_marketplace_def lower_resale)
  }
qed

theorem predict_marketplace_literals_witness:
  "is_trained resale_predictor \<and> fst (classifier resale_predictor new_item) = ''resale''
   \<and> original_price new_item = 15000 \<and> category new_item = ''Electronics''
   \<and> map_sum exception_class marketplace (predict resale_predictor new_item) = Inr (Some ''Flipkart'')
   \<and> fst (classifier resale_predictor fashion_item) = ''resale''
   \<and> original_price fashion_item = 1500 \<and> category fashion_item = ''Fashion''
   \<and> map_sum exception_class marketplace (predict resale_predictor fashion_item) = Inr (Some ''Myntra'')"
  using predict_marketplace_literals [of resale_predictor new_item]
    predict_marketplace_literals [of resale_predictor fashion_item]
  by (auto simp: resale_predictor_def resale_classifier_def new_item_def fashion_item_def
      sample_item_def lower_eval)

text \<open>
  An Electronics item priced 15000 in good condition with medium demand is worth 6000 on
  resale, and the marketplace is Flipkart 2GUD, not Flipkart.
\<close>

theorem predict_marketplace_counterexample:
  "is_trained resale_predictor \<and> fst (classifier resale_predictor used_item) = ''resale''
   \<and> original_price used_item = 15000 \<and> category used_item = ''Electronics''
   \<and> map_sum exception_class estimated_value (predict resale_predictor used_item) = Inr 6000
   \<and> map_sum exception_class marketplace (predict resale_predictor used_item)
       = Inr (Some ''Flipkart 2GUD'')"
  by (simp add: predict_def resale_predictor_def resale_classifier_def used_item_def
      sample_item_def select_marketplace_def calculate_estimated_value_def dict_get_def
      lower_eval round_ndigits_def py_round_def)

section \<open>Untrained models\<close>

text \<open>
  C5 (amended). \<^verbatim>\<open>DispositionPredictor.predict\<close> on an untrained predictor raises
  \<^verbatim>\<open>ValueError\<close> with the message "Model must be trained before making predictions", and
  \<^verbatim>\<open>ValueForecaster.forecast\<close> on an untrained forecaster raises \<^verbatim>\<open>ValueError\<close> with the
  message "Model must be trained before forecasting"; neither returns a result.
\<close>

theorem untrained_raises_ValueError:
  "(\<not> is_trained self \<longrightarrow>
      predict self item = Inl (ValueError ''Model must be trained before making predictions''))
   \<and> (\<not> vf_is_trained fc \<longrightarrow>
      forecast fc now periods cat = Inl (ValueError ''Model must be trained before forecasting''))"
  by (simp add: predict_def forecast_def)

theorem untrained_raises_ValueError_witness:
  "\<not> is_trained untrained_predictor
   \<and> predict untrained_predictor sample_item
       = Inl (ValueError ''Model must be trained before making predictions'')
   \<and> \<not> vf_is_trained untrained_forecaster
   \<and> forecast untrained_forecaster 20761 6 (Some ''Electronics'')
       = Inl (ValueError ''Model must be trained before forecasting'')"
  using untrained_raises_ValueError
          [of untrained_predictor sample_item untrained_forecaster 20761 6 "Some ''Electronics''"]
  by (simp add: untrained_predictor_def untrained_forecaster_def)

text \<open>
  The exception raised is of class \<^verbatim>\<open>ValueError\<close>; the module defines no
  \<^verbatim>\<open>NotTrainedError\<close>.
\<close>

theorem untrained_error_class_counterexample:
  "map_sum exception_class marketplace (predict untrained_predictor sample_item) = Inl ''ValueError''
   \<and> map_sum exception_class trend (forecast untrained_forecaster 20761 6 None) = Inl ''ValueError''
   \<and> ''ValueError'' \<noteq> ''NotTrainedError''"
  by (simp add: predict_def forecast_def untrained_predictor_def untrained_forecaster_def)

section \<open>Case of the action name\<close>

text \<open>
  C9. For an action string that is resale, repair, recycle or donate up to case but is not
  written in lower case, the estimated value, the CO2 saving, the landfill saving, the
  processing time and the marketplace are those of the lower-case action, while the
  reasoning text is the generic sentence ending in the confidence, which differs from the
  sentence the lower-case action gets.
\<close>

theorem action_case_handling:
  assumes "lower action \<in> {''resale'', ''repair'', ''recycle'', ''donate''}"
    and "action \<noteq> lower action"
  shows "calculate_estimated_value item action = calculate_estimated_value item (lower action)
    \<and> calculate_co2_impact item action = calculate_co2_impact item (lower action)
    \<and> calculate_waste_impact item action = calculate_waste_impact item (lower action)
    \<and> estimate_processing_time action cat = estimate_processing_time (lower action) cat
    \<and> select_marketplace action cat v = select_marketplace (lower action) cat v
    \<and> generate_reasoning item action conf =
        ''Item in ''
        @ dict_get [(''new'', ''excellent''), (''lightly-used'', ''very good''), (''good'', ''good''),
                    (''fair'', ''acceptable''), (''poor'', ''poor''), (''defective'', ''defective'')]
            (lower (condition item)) ''unknown''
        @ '' condition. Confidence: '' @ format_percent1 conf
    \<and> generate_reasoning item action conf \<noteq> generate_reasoning item (lower action) conf"
proof -
  have not_exact: "action \<noteq> ''resale''" "action \<noteq> ''repair''" "action \<noteq> ''recycle''"
    "action \<noteq> ''donate''"
    using assms by (auto simp: lower_eval)
  have fallback: "generate_reasoning item action conf =
        ''Item in ''
        @ dict_get [(''new'', ''excellent''), (''lightly-used'', ''very good''), (''good'', ''good''),
                    (''fair'', ''acceptable''), (''poor'', ''poor''), (''defective'', ''defective'')]
            (lower (condition item)) ''unknown''
        @ '' condition. Confidence: '' @ format_percent1 conf"
    using not_exact by (simp add: generate_reasoning_def)
  have specific: "generate_reasoning item action conf \<noteq> generate_reasoning item (lower action) conf"
    unfolding fallback using assms(1)
    by (auto simp: generate_reasoning_def)
  show ?thesis
    using fallback specific
    by (simp add: calculate_estimated_value_def calculate_co2_impact_def
        calculate_waste_impact_def estimate_processing_time_def select_marketplace_def lower_idem)
qed

theorem action_case_handling_witness:
  "lower ''Resale'' \<in> {''resale'', ''repair'', ''recycle'', ''donate''}
   \<and> ''Resale'' \<noteq> lower ''Resale''
   \<and> calculate_estimated_value sample_item ''Resale'' = calculate_estimated_value sample_item ''resale''
   \<and> select_marketplace ''Resale'' ''Electronics'' 750 = Some ''Amazon Renewed''
   \<and> generate_reasoning sample_item ''Resale'' 0.875 = ''Item in excellent condition. Confidence: 87.5%''
   \<and> generate_reasoning sample_item ''resale'' 0.875
       = ''Item in excellent condition, suitable for resale market. Electronics has good demand.''"
  using action_case_handling [of "''Resale''" sample_item "''Electronics''" 750 "0.875"]
  by (simp add: lower_eval generate_reasoning_def sample_item_def dict_get_def
      select_marketplace_def format_percent1_def py_round_def digits.simps)

section \<open>Risk score\<close>

lemmas risk_components = spec_volume_risk_def spec_value_risk_def spec_quality_risk_def spec_market_risk_def
  spec_operational_risk_def

lemma weighted_sum_init:
  "weighted_sum (component_scores_of d) (risk_factors RiskAssessment_init) = Inr (spec_weighted_score d)"
  by (simp add: component_scores_of_def RiskAssessment_init_def bind_exc_def subscript_def
      spec_weighted_score_def risk_components)

lemma recommendations_total:
  "\<exists>recs. generate_risk_recommendations (component_scores_of d) s = Inr recs"
  by (simp add: generate_risk_recommendations_def component_scores_of_def bind_exc_def
      subscript_def)

lemma calculate_risk_score_result:
  "\<exists>recs. calculate_risk_score RiskAssessment_init d =
     Inr \<lparr> overall_score = round_ndigits (spec_weighted_score d) 1,
           risk_level = risk_level_of (spec_weighted_score d),
           component_scores = component_scores_of d,
           recommendations = recs \<rparr>"
proof -
  obtain recs where "generate_risk_recommendations (component_scores_of d) (spec_weighted_score d) = Inr recs"
    using recommendations_total by blast
  then show ?thesis
    by (simp add: calculate_risk_score_def weighted_sum_init bind_exc_def)
qed









lemma component_scores_missing:
  "d k = None \<Longrightarrow> component_scores_of (d(k \<mapsto> 0)) = component_scores_of d"
  by (simp add: component_scores_of_def data_get_def)

text \<open>
  C10. \<^verbatim>\<open>calculate_risk_score\<close> never fails, whatever fields the input has; a missing
  field gives the same result as the field set to 0. On the empty input the volume,
  quality, market and operational risks are 0, the value risk is 100, the overall score is
  25.0 and the level is Low.
\<close>

theorem risk_score_partial_input:
  "calculate_risk_score RiskAssessment_init Map.empty =
     Inr \<lparr> overall_score = 25.0, risk_level = ''Low'',
           component_scores = [(''volume_risk'', 0), (''value_risk'', 100), (''quality_risk'', 0),
                               (''market_risk'', 0), (''operational_risk'', 0)],
           recommendations = [''Optimize pricing strategies and explore new marketplaces''] \<rparr>
   \<and> (\<exists>r. calculate_risk_score RiskAssessment_init d = Inr r)
   \<and> (d k = None \<longrightarrow>
        calculate_risk_score RiskAssessment_init (d(k \<mapsto> 0))
          = calculate_risk_score RiskAssessment_init d)"
proof (intro conjI impI)
  show "calculate_risk_score RiskAssessment_init Map.empty =
     Inr \<lparr> overall_score = 25.0, risk_level = ''Low'',
           component_scores = [(''volume_risk'', 0), (''value_risk'', 100), (''quality_risk'', 0),
                               (''market_risk'', 0), (''operational_risk'', 0)],
           recommendations = [''Optimize pricing strategies and explore new marketplaces''] \<rparr>"
    by (simp add: calculate_risk_score_def RiskAssessment_init_def component_scores_of_def
        data_get_def bind_exc_def subscript_def generate_risk_recommendations_def
        risk_level_of_def round_ndigits_def py_round_def)
next
  show "\<exists>r. calculate_risk_score RiskAssessment_init d = Inr r"
    using calculate_risk_score_result [of d] by blast
next
  assume "d k = None"
  then show "calculate_risk_score RiskAssessment_init (d(k \<mapsto> 0))
          = calculate_risk_score RiskAssessment_init d"
    by (simp add: calculate_risk_score_def component_scores_missing)
qed

theorem risk_score_partial_input_witness:
  "(Map.empty :: string \<rightharpoonup> real) ''return_rate'' = None
   \<and> calculate_risk_score RiskAssessment_init [''return_rate'' \<mapsto> 0]
       = Inr \<lparr> overall_score = 25.0, risk_level = ''Low'',
           component_scores = [(''volume_risk'', 0), (''value_risk'', 100), (''quality_risk'', 0),
                               (''market_risk'', 0), (''operational_risk'', 0)],
           recommendations = [''Optimize pricing strategies and explore new marketplaces''] \<rparr>"
  using risk_score_partial_input [of Map.empty "''return_rate''"]
  by simp

section \<open>Forecast\<close>

lemma np_var_nonneg: "0 \<le> np_var xs"
  unfolding np_var_def np_mean_def
  by (intro divide_nonneg_nonneg sum_list_nonneg) auto

lemma np_std_nonneg: "0 \<le> np_std xs"
  by (simp add: np_std_def np_var_nonneg)

lemma length_future_features: "length (generate_future_features now periods cat) = nat periods"
  by (simp add: generate_future_features_def Let_def)

lemma length_forecast_entries: "length (forecast_entries preds se) = length preds"
  by (simp add: forecast_entries_def)

lemma nth_forecast_entries:
  "i < length preds \<Longrightarrow>
     forecast_entries preds se ! i =
       \<lparr> period = int i + 1, predicted_value = preds ! i,
         lower_bound = preds ! i - 1.96 * se, upper_bound = preds ! i + 1.96 * se \<rparr>"
  by (simp add: forecast_entries_def nth_enumerate_eq)

lemma period_forecast_entries:
  "map period (forecast_entries preds se) = [1..int (length preds)]"
  by (rule nth_equalityI) (simp_all add: length_forecast_entries nth_forecast_entries)

lemma predicted_forecast_entries:
  "map predicted_value (forecast_entries preds se) = preds"
  by (rule nth_equalityI) (simp_all add: length_forecast_entries nth_forecast_entries)

lemma bounds_forecast_entries:
  assumes "0 \<le> se" and "e \<in> set (forecast_entries preds se)"
  shows "lower_bound e \<le> predicted_value e \<and> predicted_value e \<le> upper_bound e"
proof -
  obtain i where "i < length preds" and "e = forecast_entries preds se ! i"
    using assms(2) by (auto simp: in_set_conv_nth length_forecast_entries)
  then show ?thesis
    using assms(1) by (simp add: nth_forecast_entries)
qed

lemma forecast_trained:
  assumes "vf_is_trained self" and "0 < periods"
  shows "forecast self now periods cat =
     Inr \<lparr> predictions =
             forecast_entries (map (regressor self) (generate_future_features now periods cat))
               (np_std (map (regressor self) (generate_future_features now periods cat)) * 0.1),
           confidence_intervals =
             map (\<lambda>pred. (pred - 1.96 * (np_std (map (regressor self)
                               (generate_future_features now periods cat)) * 0.1),
                          pred + 1.96 * (np_std (map (regressor self)
                               (generate_future_features now periods cat)) * 0.1)))
               (map (regressor self) (generate_future_features now periods cat)),
           trend = analyze_trend (map (regressor self) (generate_future_features now periods cat)),
           seasonality_factor =
             calculate_seasonality (map (regressor self) (generate_future_features now periods cat)),
           accuracy_metrics = [(''mae'', 0.0), (''r2'', 0.0)] \<rparr>"
proof -
  have "generate_future_features now periods cat \<noteq> []"
    using assms(2) length_future_features [of now periods cat] by auto
  then show ?thesis
    using assms(1) by (simp add: forecast_def Let_def forecast_entries_def)
qed

text \<open>
  C7. For a trained forecaster and a period count \<open>n \<ge> 1\<close>, \<^verbatim>\<open>forecast\<close> returns a result
  with exactly \<open>n\<close> entries whose period fields are 1, 2, \<dots>, \<open>n\<close> in this order, the
  \<open>i\<close>-th entry holding the prediction for the \<open>i\<close>-th future row (30 days after the one
  before), and every entry has lower_bound \<le> predicted_value \<le> upper_bound.
\<close>

theorem forecast_periods:
  assumes "vf_is_trained self" and "0 < periods"
  shows "\<exists>r. forecast self now periods cat = Inr r
     \<and> length (predictions r) = nat periods
     \<and> map period (predictions r) = [1..periods]
     \<and> map predicted_value (predictions r)
         = map (regressor self) (generate_future_features now periods cat)
     \<and> (\<forall>e \<in> set (predictions r).
          lower_bound e \<le> predicted_value e \<and> predicted_value e \<le> upper_bound e)"
proof -
  let ?preds = "map (regressor self) (generate_future_features now periods cat)"
  let ?se = "np_std ?preds * 0.1"
  let ?es = "forecast_entries ?preds ?se"
  have se: "0 \<le> ?se"
    using np_std_nonneg [of ?preds] by simp
  have bounds: "\<forall>e \<in> set ?es. lower_bound e \<le> predicted_value e \<and> predicted_value e \<le> upper_bound e"
    using bounds_forecast_entries [OF se] by blast
  have len: "length ?es = nat periods"
    by (simp add: length_forecast_entries length_future_features)
  have per: "map period ?es = [1..periods]"
    using assms(2) by (simp add: period_forecast_entries length_future_features)
  have pv: "map predicted_value ?es = ?preds"
    by (rule predicted_forecast_entries)
  have "predictions (projr (forecast self now periods cat)) = ?es"
    by (simp add: forecast_trained [OF assms])
  moreover have "forecast self now periods cat = Inr (projr (forecast self now periods cat))"
    by (simp add: forecast_trained [OF assms])
  ultimately show ?thesis
    using bounds len per pv by metis
qed

text \<open>
  Six periods from 2026-11-04 for the category Electronics.
\<close>

theorem forecast_periods_witness:
  "vf_is_trained trained_forecaster \<and> (0::int) < 6
   \<and> map_sum exception_class (\<lambda>r. map period (predictions r))
        (forecast trained_forecaster 20761 6 (Some ''Electronics'')) = Inr [1, 2, 3, 4, 5, 6]
   \<and> map_sum exception_class (\<lambda>r. map predicted_value (predictions r))
        (forecast trained_forecaster 20761 6 (Some ''Electronics''))
       = Inr [5000, 5000, 5000, 5000, 5000, 5000]"
proof -
  have t: "vf_is_trained trained_forecaster"
    by (simp add: trained_forecaster_def)
  have u: "[1..6] = [1, 2, 3, 4, 5, (6::int)]"
    by (simp add: upto.simps)
  have n: "[0..<6] = [0, 1, 2, 3, 4, 5]"
    by (simp add: upt_rec)
  have p: "map (regressor trained_forecaster) (generate_future_features 20761 6 (Some ''Electronics''))
             = [5000, 5000, 5000, 5000, 5000, 5000]"
    by (simp add: generate_future_features_def Let_def n trained_forecaster_def
        constant_regressor_def o_def)
  show ?thesis
    using forecast_periods [OF t, of 6 20761 "Some ''Electronics''"] t u p by auto
qed

section \<open>Anomaly detection on a zero-variance baseline\<close>

text \<open>
  C2. The claim is that a baseline with daily standard deviation 0 yields no volume
  anomaly. \<^verbatim>\<open>detect_anomalies\<close> divides by the baseline deviation without a guard (the
  category loop has one, \<^verbatim>\<open>if expected > 0\<close>): the call does not raise, but the z-score of
  any day whose count differs from the mean is infinite and the day is reported with
  severity high. Here the history has mean 10 and deviation 0, and a day with 12 returns
  is reported.
\<close>

theorem zero_std_volume_anomaly:
  "baseline_stats fitted_detector
     = Some \<lparr> daily_mean = Finite 10, daily_std = Finite 0,
              category_means = [(''Electronics'', 10)] \<rparr>
   \<and> detect_anomalies fitted_detector busy_day
     = Inr [VolumeAnomaly 19725 12 (Finite 10) ''high''
              ''Unusual return volume: 12 vs expected 10'']"
proof -
  have b: "baseline_stats fitted_detector
     = Some \<lparr> daily_mean = Finite 10, daily_std = Finite 0,
              category_means = [(''Electronics'', 10)] \<rparr>"
    by (simp add: fitted_detector_def fit_def AnomalyDetector_init_def zero_variance_history_def
        groupby_mean_def groupby_def series_mean_def series_std_def np_mean_def)
  have th: "threshold fitted_detector = 5 / 2"
    by (simp add: fitted_detector_def fit_def AnomalyDetector_init_def)
  have d: "groupby_sum row_date busy_day = [(19725, 12)]"
    by (simp add: groupby_sum_def groupby_def busy_day_def)
  have c: "groupby_sum row_category busy_day = [(''Electronics'', 12)]"
    by (simp add: groupby_sum_def groupby_def busy_day_def)
  have v: "volume_anomalies (5 / 2) \<lparr> daily_mean = Finite 10, daily_std = Finite 0,
              category_means = [(''Electronics'', 10)] \<rparr> [(19725, 12)]
        = [VolumeAnomaly 19725 12 (Finite 10) ''high''
              ''Unusual return volume: 12 vs expected 10'']"
    by (simp add: volume_anomalies_def z_score_def str_int_def format_0f_def py_round_def
        digits.simps)
  have k: "category_anomalies \<lparr> daily_mean = Finite 10, daily_std = Finite 0,
              category_means = [(''Electronics'', 10)] \<rparr> [(''Electronics'', 12)] = []"
    by (simp add: category_anomalies_def dict_get_def)
  show ?thesis
    using b by (simp add: detect_anomalies_def th d c v k)
qed

end
